theory Spec2Isabelle
  imports Main "HOL-Library.Word"
begin

unbundle bit_operations_syntax

section \<open>Data model of session.go\<close>

text \<open>
  A stream id is Go's \<open>frame.StreamId\<close>, an unsigned 32-bit integer. Comparisons and
  additions below are the machine ones: \<open>+\<close> wraps at \<open>2 ^ 32\<close>.
\<close>

type_synonym StreamId = "32 word"

text \<open>
  The error codes that session.go names, and \<open>OtherCode\<close> for any other number (a code
  taken off the wire in a GOAWAY, or one that \<open>GetError\<close> finds).
\<close>

datatype ErrorCode =
    NoError | ProtocolError | InternalError | StreamClosed | StreamRefused
  | AcceptQueueFull | OtherCode "32 word"

text \<open>
  Errors are values. The four sentinels keep their source names; \<open>muxadoError\<close> is what
  \<open>newErr(code, err)\<close> builds; the texts made by \<open>fmt.Errorf\<close> are kept as a
  \<open>cause\<close> with the formatted arguments, unformatted (\<open>Errorf\<close> is such a text used
  as an error of its own, and \<open>Wrapped\<close> a text in front of another error, empty when
  the error is passed on as it is). \<open>external\<close> is an error that comes from the transport, the
  frame package or a stream handle.
\<close>

datatype error =
    remoteGoneAway
  | streamsExhausted
  | sessionClosed
  | writeTimeout
  | EOF
  | ErrUnexpectedEOF
  | external string
  | Errorf cause
  | muxadoError ErrorCode cause
and cause =
    Text string
  | Wrapped string error
  | LessThanLastRemote StreamId StreamId
  | WrongParity StreamId
  | Unassigned StreamId

definition newErr :: "ErrorCode \<Rightarrow> cause \<Rightarrow> error" where
  "newErr code c = muxadoError code c"

text \<open>
  The frames the session reads and writes. A DATA frame carries its header fields and,
  for a frame that came off the transport, how its body can be read: \<open>dAvail\<close> is the
  number of body bytes the transport delivers, and \<open>dReadErr\<close> the error a read gives
  once they run out before \<open>dLength\<close> is reached (\<open>None\<close> is a plain end of file).
\<close>

record data_frame =
  dStreamId :: StreamId
  dLength :: "32 word"
  dSyn :: bool
  dFin :: bool
  dAvail :: nat
  dReadErr :: "error option"

record rst_frame =
  rStreamId :: StreamId
  rErrorCode :: ErrorCode

record wndinc_frame =
  wStreamId :: StreamId
  wIncrement :: "32 word"

record goaway_frame =
  gLastStreamId :: StreamId
  gErrorCode :: ErrorCode
  gDebug :: string

datatype frame =
    DataFrame data_frame
  | RstFrame rst_frame
  | WndIncFrame wndinc_frame
  | GoAwayFrame goaway_frame
  | UnknownFrame

text \<open>
  A stream handle is used through the interface \<open>streamPrivate\<close> only. The model keeps
  what the factory was given (id, window size, fin) and the calls the session has made on
  the handle, oldest first.
\<close>

datatype call =
    HandleStreamData data_frame
  | HandleStreamRst rst_frame
  | HandleStreamWndInc wndinc_frame
  | CloseWith error

record stream =
  sId :: StreamId
  sWindowSize :: "32 word"
  sFin :: bool
  sCalls :: "call list"

record halfState =
  goneAway :: "32 word"
  lastId :: "32 word"

text \<open>
  The session. Channels are modelled by their content: \<open>accept\<close> is the buffered accept
  queue (\<open>acceptClosed\<close> once the reader has closed it), \<open>writeFrames\<close> the frames
  handed to the writer so far, \<open>asyncWrites\<close> the frames for which a detached
  \<open>writeFrame\<close> was started, \<open>dead\<close> whether the channel \<open>dead\<close> is closed. \<open>newStreamMutex\<close> is \<open>True\<close> while the mutex is held,
  \<open>transportClosed\<close> once \<open>transport.Close\<close> ran, and \<open>bodyRead\<close> counts the
  body bytes of the frame being dispatched that the session itself has read out of the
  framer.
\<close>

record session =
  dieOnce :: "32 word"
  local :: halfState
  remote :: halfState
  newStreamMutex :: bool
  transportClosed :: bool
  bodyRead :: nat
  streams :: "StreamId \<rightharpoonup> stream"
  accept :: "stream list"
  acceptClosed :: bool
  windowSize :: "32 word"
  isLocal :: "StreamId \<Rightarrow> bool"
  writeFrames :: "frame list"
  asyncWrites :: "frame list"
  dead :: bool
  dieErr :: "error option"
  remoteError :: "error option"
  remoteDebug :: string

definition defaultWindowSize :: "32 word" where
  "defaultWindowSize = 0x10000"

definition defaultAcceptQueueDepth :: nat where
  "defaultAcceptQueueDepth = 256"

subsection \<open>What lies outside session.go\<close>

text \<open>
  The writer answers a request with \<open>fromFrameError(s.framer.WriteFrame(req.f))\<close>:
  nil, an error of the frame package turned into a \<open>muxadoError\<close>, or the error of
  the transport. It is never one of the session's own sentinels.
\<close>

datatype writer_error =
    OfFrame ErrorCode cause
  | OfTransport string

definition writerErr :: "writer_error \<Rightarrow> error" where
  "writerErr w = (case w of OfFrame code c \<Rightarrow> muxadoError code c | OfTransport m \<Rightarrow> external m)"

text \<open>
  A synchronous \<open>writeFrame\<close> waits in two \<open>select\<close> statements whose outcome is
  decided by the writer task, by a concurrent shutdown and by the clock. The schedule
  says which event comes first: the queue takes the request or not, and then the
  writer answers or not.
\<close>

datatype completion =
    Written "writer_error option"
  | DeadWhileWaiting
  | NoAnswerInTime

datatype submission =
    Enqueued completion
  | DeadFirst
  | NoRoomInTime

text \<open>
  The collaborators of the session that are not in session.go are parameters: whether
  the frame package refuses to pack a frame, \<open>fromFrameError\<close>, \<open>GetError\<close>, the text
  of an error, the schedule of the one synchronous write of an operation, and what the
  stream handle's three handlers return.
\<close>

record env =
  packFails :: "frame \<Rightarrow> error option"
  fromFrameError :: "error \<Rightarrow> error"
  GetError :: "error \<Rightarrow> ErrorCode"
  errorText :: "error \<Rightarrow> string"
  schedule :: submission
  handleStreamData :: "stream \<Rightarrow> data_frame \<Rightarrow> error option"
  handleStreamRst :: "stream \<Rightarrow> rst_frame \<Rightarrow> error option"
  handleStreamWndInc :: "stream \<Rightarrow> wndinc_frame \<Rightarrow> error option"

text \<open>
  Modelled from the spec: the stream factory \<open>newStream\<close> of stream.go, which is not
  among the sources. The handle it returns reports the id it was created with and has
  received no call yet.
\<close>

definition newStream :: "StreamId \<Rightarrow> 32 word \<Rightarrow> bool \<Rightarrow> stream" where
  "newStream sid w fin = \<lparr>sId = sid, sWindowSize = w, sFin = fin, sCalls = []\<rparr>"

definition called :: "call \<Rightarrow> stream \<Rightarrow> stream" where
  "called c str = str\<lparr>sCalls := sCalls str @ [c]\<rparr>"

definition closeWith :: "error \<Rightarrow> stream \<Rightarrow> stream" where
  "closeWith err str = called (CloseWith err) str"

text \<open>\<open>streams.Each(fn)\<close>: \<open>fn\<close> runs once on every entry of the table.\<close>

definition Each :: "(StreamId \<Rightarrow> stream \<Rightarrow> stream) \<Rightarrow> (StreamId \<rightharpoonup> stream) \<Rightarrow> (StreamId \<rightharpoonup> stream)" where
  "Each fn m = (\<lambda>sid. case m sid of None \<Rightarrow> None | Some str \<Rightarrow> Some (fn sid str))"

section \<open>Construction and parity\<close>

definition isClient :: "StreamId \<Rightarrow> bool" where
  "isClient sid = (sid AND 1 = 1)"

definition isServer :: "StreamId \<Rightarrow> bool" where
  "isServer sid = (\<not> isClient sid)"

text \<open>The zero value of the struct, with the fields \<open>newSession\<close> fills in.\<close>

definition zeroSession :: session where
  "zeroSession =
     \<lparr>dieOnce = 0, local = \<lparr>goneAway = 0, lastId = 0\<rparr>, remote = \<lparr>goneAway = 0, lastId = 0\<rparr>,
      newStreamMutex = False, transportClosed = False, bodyRead = 0, streams = Map.empty,
      accept = [], acceptClosed = False, windowSize = defaultWindowSize, isLocal = (\<lambda>_. False),
      writeFrames = [], asyncWrites = [], dead = False, dieErr = None,
      remoteError = None, remoteDebug = []\<rparr>"

definition newSession :: "bool \<Rightarrow> session" where
  "newSession isClientRole =
     (if isClientRole
      then zeroSession\<lparr>isLocal := isClient,
                       local := (local zeroSession)\<lparr>lastId := lastId (local zeroSession) + 1\<rparr>\<rparr>
      else zeroSession\<lparr>isLocal := isServer,
                       remote := (remote zeroSession)\<lparr>lastId := lastId (remote zeroSession) + 1\<rparr>\<rparr>)"

definition Client :: session where
  "Client = newSession True"

definition Server :: session where
  "Server = newSession False"

section \<open>The writer pipeline as the callers see it\<close>

text \<open>
  A deadline is \<open>None\<close> for \<open>zeroTime\<close>. With no deadline the \<open>timeout\<close> channel is
  nil and its \<open>case\<close> never fires: a schedule in which nothing else happens leaves the
  caller blocked for good, which is the result \<open>None\<close>.
\<close>

type_synonym deadline = "nat option"

definition zeroTime :: deadline where
  "zeroTime = None"

definition writeFrame :: "env \<Rightarrow> frame \<Rightarrow> deadline \<Rightarrow> session \<Rightarrow> (error option \<times> session) option" where
  "writeFrame e f dl s =
     (case schedule e of
        DeadFirst \<Rightarrow> Some (Some sessionClosed, s)
      | NoRoomInTime \<Rightarrow> (if dl = None then None else Some (Some writeTimeout, s))
      | Enqueued c \<Rightarrow>
          (let s1 = s\<lparr>writeFrames := writeFrames s @ [f]\<rparr>
           in case c of
                Written err \<Rightarrow> Some (map_option writerErr err, s1)
              | NoAnswerInTime \<Rightarrow> (if dl = None then None else Some (Some writeTimeout, s1))
              | DeadWhileWaiting \<Rightarrow> Some (Some sessionClosed, s1)))"

definition writeFrameSync :: "env \<Rightarrow> frame \<Rightarrow> deadline \<Rightarrow> session \<Rightarrow> (error option \<times> session) option" where
  "writeFrameSync e f dl s = writeFrame e f dl s"

text \<open>\<open>go s.writeFrame(f, zeroTime)\<close>: the write is started and nil is returned at once.\<close>

definition writeFrameAsync :: "frame \<Rightarrow> session \<Rightarrow> error option \<times> session" where
  "writeFrameAsync f s = (None, s\<lparr>asyncWrites := asyncWrites s @ [f]\<rparr>)"

section \<open>GoAway, shutdown and Wait\<close>

definition GoAway :: "env \<Rightarrow> ErrorCode \<Rightarrow> string \<Rightarrow> deadline \<Rightarrow> session \<Rightarrow> (error option \<times> session) option" where
  "GoAway e errCode debug dl s =
     (let s1 = s\<lparr>local := (local s)\<lparr>goneAway := 1\<rparr>\<rparr>;
          remoteId = lastId (remote s1);
          f = GoAwayFrame \<lparr>gLastStreamId = remoteId, gErrorCode = errCode, gDebug = debug\<rparr>
      in case packFails e f of
           Some err \<Rightarrow> Some (Some (fromFrameError e err), s1)
         | None \<Rightarrow> writeFrameSync e f dl s1)"

text \<open>The last statement of \<open>die\<close>: every stream of the table is told.\<close>

definition closeAll :: "session \<Rightarrow> session" where
  "closeAll s =
     s\<lparr>streams := Each (\<lambda>sid str. closeWith (Errorf (Text ''Session closed'')) str) (streams s)\<rparr>"

text \<open>
  \<open>die\<close> after it has won the compare-and-swap, statement by statement: the list holds
  the state after the swap, after the best-effort GOAWAY, after \<open>dieErr\<close> is stored,
  after \<open>dead\<close> is closed, after the transport is closed and after every stream was
  told. Another task that runs in between sees one of these states.
\<close>

definition dieStates :: "env \<Rightarrow> error option \<Rightarrow> session \<Rightarrow> session list option" where
  "dieStates e err s =
     (let s1 = s\<lparr>dieOnce := 1\<rparr>;
          errorCode = (case err of None \<Rightarrow> NoError | Some x \<Rightarrow> GetError e x);
          debug = (case err of None \<Rightarrow> ''no error'' | Some x \<Rightarrow> errorText e x)
      in case GoAway e errorCode debug (Some 250) s1 of
           None \<Rightarrow> None
         | Some (_, s2) \<Rightarrow>
             (let s3 = s2\<lparr>dieErr := err\<rparr>;
                  s4 = s3\<lparr>dead := True\<rparr>;
                  s5 = s4\<lparr>transportClosed := True\<rparr>;
                  s6 = closeAll s5
              in Some [s1, s2, s3, s4, s5, s6]))"

definition die :: "env \<Rightarrow> error option \<Rightarrow> session \<Rightarrow> (error option \<times> session) option" where
  "die e err s =
     (if dieOnce s \<noteq> 0 then Some (Some sessionClosed, s)
      else case dieStates e err s of
             None \<Rightarrow> None
           | Some ss \<Rightarrow> Some (None, last ss))"

definition Close :: "env \<Rightarrow> session \<Rightarrow> (error option \<times> session) option" where
  "Close e s = die e None s"

text \<open>\<open>Wait\<close> blocks on \<open>dead\<close>: while the channel is open there is no result.\<close>

definition Wait :: "session \<Rightarrow> (error option \<times> error option \<times> string) option" where
  "Wait s = (if dead s then Some (dieErr s, remoteError s, remoteDebug s) else None)"

section \<open>The private interface for streams\<close>

text \<open>\<open>removeStream\<close> deletes the entry; it is not an error when there is none.\<close>

definition removeStream :: "StreamId \<Rightarrow> session \<Rightarrow> session" where
  "removeStream sid s = s\<lparr>streams := (streams s)(sid := None)\<rparr>"

section \<open>Opening a stream\<close>

text \<open>
  \<open>newStreamMutex.Lock()\<close> on a mutex that is held does not return before it is
  released; in a run with no other task that is never, the result \<open>None\<close>.
\<close>

definition synFrame :: "StreamId \<Rightarrow> frame" where
  "synFrame nextId =
     DataFrame \<lparr>dStreamId = nextId, dLength = 0, dSyn = True, dFin = False,
                dAvail = 0, dReadErr = None\<rparr>"

definition OpenStream :: "env \<Rightarrow> session \<Rightarrow> ((error + stream) \<times> session) option" where
  "OpenStream e s =
     (if goneAway (remote s) = 1 then Some (Inl remoteGoneAway, s)
      else if newStreamMutex s then None
      else
        (let s1 = s\<lparr>newStreamMutex := True\<rparr>;
             nextId = lastId (local s1) + 2;
             s2 = s1\<lparr>local := (local s1)\<lparr>lastId := nextId\<rparr>\<rparr>
         in if nextId AND push_bit 31 1 > 0 then Some (Inl streamsExhausted, s2)
            else
              (let str = newStream nextId (windowSize s2) False;
                   s3 = s2\<lparr>streams := (streams s2)(nextId \<mapsto> str)\<rparr>;
                   f = synFrame nextId
               in case packFails e f of
                    Some err \<Rightarrow>
                      Some (Inl (newErr InternalError (Wrapped [] err)), s3\<lparr>newStreamMutex := False\<rparr>)
                  | None \<Rightarrow>
                      (case writeFrame e f zeroTime s3 of
                         None \<Rightarrow> None
                       | Some (err, s4) \<Rightarrow>
                           (let s5 = s4\<lparr>newStreamMutex := False\<rparr>
                            in case err of
                                 Some x \<Rightarrow> Some (Inl x, s5)
                               | None \<Rightarrow> Some (Inr str, s5))))))"

definition Open :: "env \<Rightarrow> session \<Rightarrow> ((error + stream) \<times> session) option" where
  "Open e s = OpenStream e s"

section \<open>Reader dispatch\<close>

text \<open>A call on the handle that the table holds under \<open>key\<close>.\<close>

definition callOn :: "StreamId \<Rightarrow> call \<Rightarrow> session \<Rightarrow> session" where
  "callOn key c s = s\<lparr>streams := (streams s)(key := map_option (called c) (streams s key))\<rparr>"

text \<open>
  \<open>io.Copy(ioutil.Discard, f.Reader())\<close>: the reader is limited to \<open>dLength\<close> bytes;
  the copy ends at the limit or when the transport stops, and an end of file is not an
  error for \<open>io.Copy\<close>.
\<close>

definition copyDiscard :: "data_frame \<Rightarrow> nat \<times> error option" where
  "copyDiscard f =
     (let n = min (unat (dLength f)) (dAvail f)
      in (n, if n < unat (dLength f)
             then (case dReadErr f of Some EOF \<Rightarrow> None | r \<Rightarrow> r)
             else None))"

definition getStream :: "env \<Rightarrow> StreamId \<Rightarrow> session \<Rightarrow> (stream option \<times> session) option" where
  "getStream e sid s =
     (let last = (if isLocal s sid then lastId (local s) else lastId (remote s))
      in if sid > last
         then (case die e (Some (newErr ProtocolError (Unassigned sid))) s of
                 None \<Rightarrow> None
               | Some (_, s1) \<Rightarrow> Some (streams s1 sid, s1))
         else Some (streams s sid, s))"

text \<open>
  In \<open>handleSyn\<close> the offer \<open>s.accept <- str\<close> goes through at once while the
  buffer of 256 has room. When it is full and no task receives within the 5 ms, the
  timeout case runs; a task that receives in time has run before, and the buffer has
  room again.
\<close>

definition handleSyn :: "env \<Rightarrow> data_frame \<Rightarrow> session \<Rightarrow> error option \<times> session" where
  "handleSyn e f s =
     (if goneAway (local s) = 1
      then
        (let rstF = RstFrame \<lparr>rStreamId = dStreamId f, rErrorCode = StreamRefused\<rparr>
         in case packFails e rstF of
              Some err \<Rightarrow>
                (Some (newErr InternalError (Wrapped ''failed to pack stream refused RST'' err)), s)
            | None \<Rightarrow> (None, snd (writeFrameAsync rstF s)))
      else
        (let lastRemoteId = lastId (remote s)
         in if dStreamId f < lastRemoteId
            then (Some (newErr ProtocolError (LessThanLastRemote (dStreamId f) lastRemoteId)), s)
            else if isLocal s (dStreamId f)
            then (Some (newErr ProtocolError (WrongParity (dStreamId f))), s)
            else
              (let s1 = s\<lparr>remote := (remote s)\<lparr>lastId := dStreamId f\<rparr>\<rparr>;
                   str = newStream (dStreamId f) (windowSize s1) (dFin f);
                   s2 = s1\<lparr>streams := (streams s1)(dStreamId f \<mapsto> str)\<rparr>
               in if length (accept s2) < defaultAcceptQueueDepth
                  then
                    (let s3 = s2\<lparr>accept := accept s2 @ [str]\<rparr>
                     in (handleStreamData e str f, callOn (dStreamId f) (HandleStreamData f) s3))
                  else
                    (let rstF = RstFrame \<lparr>rStreamId = dStreamId f, rErrorCode = AcceptQueueFull\<rparr>
                     in case packFails e rstF of
                          Some err \<Rightarrow>
                            (Some (newErr InternalError
                                     (Wrapped ''failed to pack accept overflow RST'' err)), s2)
                        | None \<Rightarrow>
                            (let s3 = snd (writeFrameAsync rstF s2)
                             in (handleStreamData e str f,
                                 callOn (dStreamId f) (HandleStreamData f) s3))))))"

definition handleFrame :: "env \<Rightarrow> frame \<Rightarrow> session \<Rightarrow> (error option \<times> session) option" where
  "handleFrame e rf s =
     (case rf of
        DataFrame f \<Rightarrow>
          (if dSyn f then Some (handleSyn e f s)
           else case getStream e (dStreamId f) s of
                  None \<Rightarrow> None
                | Some (None, s1) \<Rightarrow>
                    (let (n, err) = copyDiscard f;
                         s2 = s1\<lparr>bodyRead := n\<rparr>
                     in if err \<noteq> None then Some (err, s2)
                        else if (of_nat n :: 32 word) < dLength f then Some (Some ErrUnexpectedEOF, s2)
                        else
                          (let fRst = RstFrame \<lparr>rStreamId = dStreamId f, rErrorCode = StreamClosed\<rparr>
                           in case packFails e fRst of
                                Some perr \<Rightarrow>
                                  Some (Some (newErr InternalError
                                     (Wrapped ''failed to pack data on closed stream RST'' perr)), s2)
                              | None \<Rightarrow> Some (None, snd (writeFrameAsync fRst s2))))
                | Some (Some str, s1) \<Rightarrow>
                    Some (handleStreamData e str f, callOn (dStreamId f) (HandleStreamData f) s1))
      | RstFrame f \<Rightarrow>
          (case getStream e (rStreamId f) s of
             None \<Rightarrow> None
           | Some (None, s1) \<Rightarrow> Some (None, s1)
           | Some (Some str, s1) \<Rightarrow>
               Some (handleStreamRst e str f, callOn (rStreamId f) (HandleStreamRst f) s1))
      | WndIncFrame f \<Rightarrow>
          (case getStream e (wStreamId f) s of
             None \<Rightarrow> None
           | Some (None, s1) \<Rightarrow> Some (None, s1)
           | Some (Some str, s1) \<Rightarrow>
               Some (handleStreamWndInc e str f, callOn (wStreamId f) (HandleStreamWndInc f) s1))
      | GoAwayFrame f \<Rightarrow>
          (let s1 = s\<lparr>remote := (remote s)\<lparr>goneAway := 1\<rparr>\<rparr>;
               s2 = s1\<lparr>remoteDebug := gDebug f\<rparr>;
               s3 = s2\<lparr>remoteError := Some (muxadoError (gErrorCode f) (Text (gDebug f)))\<rparr>;
               lastId = gLastStreamId f
           in Some (None,
                s3\<lparr>streams :=
                     Each (\<lambda>sid str. if isLocal s3 (sId str) \<and> sId str > lastId
                                     then closeWith remoteGoneAway str else str)
                          (streams s3)\<rparr>))
      | UnknownFrame \<Rightarrow> Some (None, s))"

text \<open>
  One turn of the loop of \<open>reader\<close>, on the result of \<open>ReadFrame\<close>. Of a frame
  that was just read, no body byte has been read yet. The flag says whether the loop
  goes on; when it does not, the deferred \<open>close(s.accept)\<close> runs.
\<close>

definition readerExit :: "(error option \<times> session) option \<Rightarrow> (bool \<times> session) option" where
  "readerExit r = (case r of None \<Rightarrow> None | Some (_, s) \<Rightarrow> Some (False, s\<lparr>acceptClosed := True\<rparr>))"

definition readerStep :: "env \<Rightarrow> error + frame \<Rightarrow> session \<Rightarrow> (bool \<times> session) option" where
  "readerStep e r s =
     (case r of
        Inl err0 \<Rightarrow>
          (let err = fromFrameError e err0
           in if err = EOF then readerExit (die e None s) else readerExit (die e (Some err) s))
      | Inr f \<Rightarrow>
          (case handleFrame e f (s\<lparr>bodyRead := 0\<rparr>) of
             None \<Rightarrow> None
           | Some (Some err, s1) \<Rightarrow> readerExit (die e (Some err) s1)
           | Some (None, s1) \<Rightarrow>
               (if dead s1 then Some (False, s1\<lparr>acceptClosed := True\<rparr>) else Some (True, s1))))"

section \<open>A well-behaved environment\<close>

text \<open>
  An environment in which nothing outside the session fails: every frame packs, the
  writer takes each request and writes it, and the stream handlers return nil. It is
  used to run the operations on concrete sessions.
\<close>

definition quietEnv :: env where
  "quietEnv =
     \<lparr>packFails = (\<lambda>_. None),
      fromFrameError = (\<lambda>err. err),
      GetError = (\<lambda>err. case err of muxadoError code _ \<Rightarrow> code | _ \<Rightarrow> InternalError),
      errorText = (\<lambda>_. ''error''),
      schedule = Enqueued (Written None),
      handleStreamData = (\<lambda>_ _. None),
      handleStreamRst = (\<lambda>_ _. None),
      handleStreamWndInc = (\<lambda>_ _. None)\<rparr>"

text \<open>
  The state in which \<open>GoAway\<close> leaves a session: the local half is marked as gone,
  and the frames handed to the writer are \<open>w\<close>.
\<close>

definition afterGoAway :: "frame list \<Rightarrow> session \<Rightarrow> session" where
  "afterGoAway w s = s\<lparr>local := (local s)\<lparr>goneAway := 1\<rparr>, writeFrames := w\<rparr>"

text \<open>
  The state in which \<open>OpenStream\<close> submits its SYN: the mutex is held, the id is
  allocated and the new stream is in the table.
\<close>

definition beforeSyn :: "session \<Rightarrow> session" where
  "beforeSyn s =
     s\<lparr>newStreamMutex := True,
       local := (local s)\<lparr>lastId := lastId (local s) + 2\<rparr>,
       streams := (streams s)(lastId (local s) + 2 \<mapsto>
                     newStream (lastId (local s) + 2) (windowSize s) False)\<rparr>"

text \<open>
  A client that has opened streams 3, 5, 7 and 9 and accepted stream 8 from the server.
\<close>

definition fiveStreams :: session where
  "fiveStreams =
     Client\<lparr>local := \<lparr>goneAway = 0, lastId = 9\<rparr>,
            remote := \<lparr>goneAway = 0, lastId = 8\<rparr>,
            streams := [3 \<mapsto> newStream 3 defaultWindowSize False,
                        5 \<mapsto> newStream 5 defaultWindowSize False,
                        7 \<mapsto> newStream 7 defaultWindowSize False,
                        8 \<mapsto> newStream 8 defaultWindowSize False,
                        9 \<mapsto> newStream 9 defaultWindowSize False]\<rparr>"

text \<open>
  Frames as they come off the transport with their whole body of \<open>n\<close> bytes: a SYN
  and a plain DATA frame.
\<close>

definition synData :: "StreamId \<Rightarrow> nat \<Rightarrow> data_frame" where
  "synData sid n =
     \<lparr>dStreamId = sid, dLength = of_nat n, dSyn = True, dFin = False, dAvail = n, dReadErr = None\<rparr>"

definition plainData :: "StreamId \<Rightarrow> nat \<Rightarrow> data_frame" where
  "plainData sid n =
     \<lparr>dStreamId = sid, dLength = of_nat n, dSyn = False, dFin = False, dAvail = n, dReadErr = None\<rparr>"

text \<open>
  The state in which \<open>die\<close> leaves a session that was alive, when the best-effort
  GOAWAY left \<open>w\<close> with the writer.
\<close>

definition dieFinal :: "frame list \<Rightarrow> error option \<Rightarrow> session \<Rightarrow> session" where
  "dieFinal w err s =
     closeAll ((afterGoAway w (s\<lparr>dieOnce := 1\<rparr>))\<lparr>dieErr := err, dead := True, transportClosed := True\<rparr>)"

text \<open>
  The stream id that \<open>handleFrame\<close> looks up with \<open>getStream\<close>, for the frames it
  looks one up for, and the last id that \<open>getStream\<close> compares it with.
\<close>

definition target :: "frame \<Rightarrow> StreamId option" where
  "target rf =
     (case rf of
        DataFrame f \<Rightarrow> (if dSyn f then None else Some (dStreamId f))
      | RstFrame f \<Rightarrow> Some (rStreamId f)
      | WndIncFrame f \<Rightarrow> Some (wStreamId f)
      | GoAwayFrame f \<Rightarrow> None
      | UnknownFrame \<Rightarrow> None)"

definition lastFor :: "session \<Rightarrow> StreamId \<Rightarrow> 32 word" where
  "lastFor s sid = (if isLocal s sid then lastId (local s) else lastId (remote s))"

text \<open>The two RST frames of the reader's stream-level refusals.\<close>

definition closedStreamRst :: "data_frame \<Rightarrow> frame" where
  "closedStreamRst f = RstFrame \<lparr>rStreamId = dStreamId f, rErrorCode = StreamClosed\<rparr>"

definition queueFullRst :: "data_frame \<Rightarrow> frame" where
  "queueFullRst f = RstFrame \<lparr>rStreamId = dStreamId f, rErrorCode = AcceptQueueFull\<rparr>"

text \<open>
  A client whose stream 3 was opened and has since been removed from the table, and a
  server whose accept queue holds the 256 streams 3, 5, ..., 513 that nobody accepted.
\<close>

definition streamThreeGone :: session where
  "streamThreeGone =
     removeStream 3
       (Client\<lparr>local := \<lparr>goneAway = 0, lastId = 3\<rparr>,
               streams := [3 \<mapsto> newStream 3 defaultWindowSize False]\<rparr>)"

definition fullQueue :: session where
  "fullQueue =
     Server\<lparr>remote := \<lparr>goneAway = 0, lastId = 513\<rparr>,
            streams := (\<lambda>sid. if isClient sid \<and> 3 \<le> sid \<and> sid \<le> 513
                              then Some (newStream sid defaultWindowSize False) else None),
            accept := map (\<lambda>i. newStream (of_nat (2 * i + 3)) defaultWindowSize False) [0..<256]\<rparr>"

section \<open>Shutdown always returns\<close>

text \<open>
  With a deadline every \<open>select\<close> of \<open>writeFrame\<close> has a case that fires, so
  \<open>GoAway\<close> as \<open>die\<close> calls it returns, and so does \<open>die\<close>.
\<close>

lemma writeFrame_deadline:
  "\<exists>r w. writeFrame e f (Some n) s = Some (r, s\<lparr>writeFrames := w\<rparr>)"
proof (cases "schedule e")
  case (Enqueued c)
  then show ?thesis
    by (cases c) (auto simp: writeFrame_def Let_def)
next
  case DeadFirst
  then have "writeFrame e f (Some n) s = Some (Some sessionClosed, s\<lparr>writeFrames := writeFrames s\<rparr>)"
    by (simp add: writeFrame_def)
  then show ?thesis by blast
next
  case NoRoomInTime
  then have "writeFrame e f (Some n) s = Some (Some writeTimeout, s\<lparr>writeFrames := writeFrames s\<rparr>)"
    by (simp add: writeFrame_def)
  then show ?thesis by blast
qed

lemma GoAway_deadline:
  "\<exists>r w. GoAway e c d (Some n) s = Some (r, afterGoAway w s)"
proof (cases "packFails e (GoAwayFrame \<lparr>gLastStreamId = lastId (remote s), gErrorCode = c, gDebug = d\<rparr>)")
  case None
  obtain r w where "writeFrame e (GoAwayFrame \<lparr>gLastStreamId = lastId (remote s), gErrorCode = c, gDebug = d\<rparr>)
      (Some n) (s\<lparr>local := (local s)\<lparr>goneAway := 1\<rparr>\<rparr>) = Some (r, (s\<lparr>local := (local s)\<lparr>goneAway := 1\<rparr>\<rparr>)\<lparr>writeFrames := w\<rparr>)"
    using writeFrame_deadline by blast
  with None show ?thesis
    by (auto simp: GoAway_def writeFrameSync_def afterGoAway_def Let_def)
next
  case (Some err)
  have "GoAway e c d (Some n) s
          = Some (Some (fromFrameError e err), afterGoAway (writeFrames s) s)"
    using Some by (simp add: GoAway_def Let_def afterGoAway_def)
  then show ?thesis by blast
qed

lemma dieStates_shape:
  "\<exists>w. dieStates e err s =
     Some [s\<lparr>dieOnce := 1\<rparr>,
           afterGoAway w (s\<lparr>dieOnce := 1\<rparr>),
           (afterGoAway w (s\<lparr>dieOnce := 1\<rparr>))\<lparr>dieErr := err\<rparr>,
           (afterGoAway w (s\<lparr>dieOnce := 1\<rparr>))\<lparr>dieErr := err, dead := True\<rparr>,
           (afterGoAway w (s\<lparr>dieOnce := 1\<rparr>))\<lparr>dieErr := err, dead := True, transportClosed := True\<rparr>,
           closeAll ((afterGoAway w (s\<lparr>dieOnce := 1\<rparr>))\<lparr>dieErr := err, dead := True, transportClosed := True\<rparr>)]"
proof -
  obtain r w where "GoAway e (case err of None \<Rightarrow> NoError | Some x \<Rightarrow> GetError e x)
      (case err of None \<Rightarrow> ''no error'' | Some x \<Rightarrow> errorText e x) (Some 250) (s\<lparr>dieOnce := 1\<rparr>)
      = Some (r, afterGoAway w (s\<lparr>dieOnce := 1\<rparr>))"
    using GoAway_deadline by blast
  then show ?thesis
    by (auto simp: dieStates_def Let_def closeAll_def intro!: exI[of _ w])
qed


section \<open>Parity and the exhaustion bit\<close>




lemma bit31: "((x :: 32 word) AND push_bit 31 1 > 0) = bit x 31"
proof -
  have "(x AND 2 ^ 31 = 0) = (\<not> bit x 31)"
    by (rule and_exp_eq_0_iff_not_bit)
  then show ?thesis
    by (simp add: word_greater_zero_iff)
qed


section \<open>The paths of OpenStream\<close>




lemma OpenStream_exhausted:
  assumes "goneAway (remote s) \<noteq> 1" and "\<not> newStreamMutex s" and "bit (lastId (local s) + 2) 31"
  shows "OpenStream e s =
     Some (Inl streamsExhausted,
           s\<lparr>newStreamMutex := True, local := (local s)\<lparr>lastId := lastId (local s) + 2\<rparr>\<rparr>)"
  using assms unfolding OpenStream_def Let_def bit31 by simp

lemma OpenStream_allocated:
  assumes "goneAway (remote s) \<noteq> 1" and "\<not> newStreamMutex s" and "\<not> bit (lastId (local s) + 2) 31"
  shows "OpenStream e s =
     (case packFails e (synFrame (lastId (local s) + 2)) of
        Some err \<Rightarrow>
          Some (Inl (newErr InternalError (Wrapped [] err)), (beforeSyn s)\<lparr>newStreamMutex := False\<rparr>)
      | None \<Rightarrow>
          (case writeFrame e (synFrame (lastId (local s) + 2)) zeroTime (beforeSyn s) of
             None \<Rightarrow> None
           | Some (err, s4) \<Rightarrow>
               Some (case err of Some x \<Rightarrow> Inl x
                       | None \<Rightarrow> Inr (newStream (lastId (local s) + 2) (windowSize s) False),
                     s4\<lparr>newStreamMutex := False\<rparr>)))"
  using assms unfolding OpenStream_def Let_def bit31
  by (simp add: beforeSyn_def split: option.splits)



text \<open>Every return of \<open>OpenStream\<close> but the one for exhausted ids has released the mutex.\<close>

lemma OpenStream_releases:
  assumes gone: "goneAway (remote s) \<noteq> 1" and free: "\<not> newStreamMutex s"
    and ret: "OpenStream e s = Some (r, s')" and other: "r \<noteq> Inl streamsExhausted"
  shows "\<not> newStreamMutex s'"
proof (cases "bit (lastId (local s) + 2) 31")
  case True
  with OpenStream_exhausted [OF gone free True, of e] ret other show ?thesis by simp
next
  case False
  from OpenStream_allocated [OF gone free False, of e] ret show ?thesis
    by (auto split: option.splits)
qed

section \<open>What die leaves behind\<close>

lemma die_first:
  assumes "dieOnce s = 0"
  shows "\<exists>w. die e err s = Some (None, dieFinal w err s)"
proof -
  obtain w where "dieStates e err s =
     Some [s\<lparr>dieOnce := 1\<rparr>,
           afterGoAway w (s\<lparr>dieOnce := 1\<rparr>),
           (afterGoAway w (s\<lparr>dieOnce := 1\<rparr>))\<lparr>dieErr := err\<rparr>,
           (afterGoAway w (s\<lparr>dieOnce := 1\<rparr>))\<lparr>dieErr := err, dead := True\<rparr>,
           (afterGoAway w (s\<lparr>dieOnce := 1\<rparr>))\<lparr>dieErr := err, dead := True, transportClosed := True\<rparr>,
           closeAll ((afterGoAway w (s\<lparr>dieOnce := 1\<rparr>))\<lparr>dieErr := err, dead := True, transportClosed := True\<rparr>)]"
    using dieStates_shape by blast
  with assms have "die e err s = Some (None, dieFinal w err s)"
    by (simp add: die_def dieFinal_def)
  then show ?thesis by blast
qed

lemma dieFinal_fields:
  "dead (dieFinal w err s)" "dieErr (dieFinal w err s) = err" "dieOnce (dieFinal w err s) = 1"
  "remote (dieFinal w err s) = remote s" "lastId (local (dieFinal w err s)) = lastId (local s)"
  "streams (dieFinal w err s) sid = map_option (closeWith (Errorf (Text ''Session closed''))) (streams s sid)"
  "isLocal (dieFinal w err s) = isLocal s" "accept (dieFinal w err s) = accept s"
  "asyncWrites (dieFinal w err s) = asyncWrites s" "bodyRead (dieFinal w err s) = bodyRead s"
  by (simp_all add: dieFinal_def closeAll_def afterGoAway_def Each_def map_option_case)

section \<open>The branches of handleSyn and getStream\<close>




lemma short_body: "((of_nat (min (unat l) a) :: 32 word) < l) = (a < unat l)"
proof (cases "a < unat l")
  case True
  have "unat l < 2 ^ 32" using unsigned_less [of l, where ?'a = nat] by simp
  with True have "a < 2 ^ 32" by simp
  then have "unat (of_nat a :: 32 word) = a" by (simp add: unat_of_nat)
  with True show ?thesis by (simp add: word_less_nat_alt min_def)
next
  case False
  then show ?thesis by (simp add: min_def)
qed

lemma getStream_known:
  "sid \<le> lastFor s sid \<Longrightarrow> getStream e sid s = Some (streams s sid, s)"
  by (auto simp: getStream_def lastFor_def Let_def)

lemma getStream_idle:
  assumes "lastFor s sid < sid" and "dieOnce s = 0"
  shows "\<exists>w. getStream e sid s
           = Some (streams (dieFinal w (Some (newErr ProtocolError (Unassigned sid))) s) sid,
                   dieFinal w (Some (newErr ProtocolError (Unassigned sid))) s)"
proof -
  from die_first [OF assms(2), of e "Some (newErr ProtocolError (Unassigned sid))"]
  obtain w where "die e (Some (newErr ProtocolError (Unassigned sid))) s
      = Some (None, dieFinal w (Some (newErr ProtocolError (Unassigned sid))) s)" by blast
  with assms(1) have "getStream e sid s
           = Some (streams (dieFinal w (Some (newErr ProtocolError (Unassigned sid))) s) sid,
                   dieFinal w (Some (newErr ProtocolError (Unassigned sid))) s)"
    by (auto simp: getStream_def lastFor_def Let_def)
  then show ?thesis by blast
qed

lemma handleFrame_keeps_death:
  assumes "getStream e sid s = Some (str, s1)" and "target rf = Some sid"
  shows "\<exists>r s'. handleFrame e rf s = Some (r, s') \<and> dead s' = dead s1 \<and> dieErr s' = dieErr s1"
proof (cases rf)
  case (DataFrame f)
  with assms show ?thesis
    by (cases str; cases "copyDiscard f")
       (auto simp: handleFrame_def target_def callOn_def writeFrameAsync_def Let_def
             split: if_splits option.splits)
next
  case (RstFrame f)
  with assms show ?thesis
    by (cases str) (auto simp: handleFrame_def target_def callOn_def)
next
  case (WndIncFrame f)
  with assms show ?thesis
    by (cases str) (auto simp: handleFrame_def target_def callOn_def)
next
  case (GoAwayFrame f)
  with assms show ?thesis by (simp add: target_def)
next
  case UnknownFrame
  with assms show ?thesis by (simp add: target_def)
qed

lemma absent_data:
  assumes "\<not> dSyn f" and "dStreamId f \<le> lastFor s (dStreamId f)" and "streams s (dStreamId f) = None"
  shows "handleFrame e (DataFrame f) s =
     Some (if dAvail f < unat (dLength f)
           then (case dReadErr f of
                   None \<Rightarrow> Some ErrUnexpectedEOF
                 | Some EOF \<Rightarrow> Some ErrUnexpectedEOF
                 | Some err \<Rightarrow> Some err,
                 s\<lparr>bodyRead := dAvail f\<rparr>)
           else (case packFails e (closedStreamRst f) of
                   Some perr \<Rightarrow>
                     (Some (newErr InternalError
                              (Wrapped ''failed to pack data on closed stream RST'' perr)),
                      s\<lparr>bodyRead := unat (dLength f)\<rparr>)
                 | None \<Rightarrow>
                     (None, s\<lparr>bodyRead := unat (dLength f),
                              asyncWrites := asyncWrites s @ [closedStreamRst f]\<rparr>)))"
proof -
  have g: "getStream e (dStreamId f) s = Some (None, s)"
    using assms(2,3) by (simp add: getStream_known)
  show ?thesis
  proof (cases "dAvail f < unat (dLength f)")
    case True
    then have m: "min (unat (dLength f)) (dAvail f) = dAvail f" by simp
    have lt: "(of_nat (dAvail f) :: 32 word) < dLength f"
      using short_body [of "dLength f" "dAvail f"] True m by simp
    show ?thesis
      using assms(1) g True lt
      by (simp add: handleFrame_def copyDiscard_def m Let_def split: option.splits error.splits)
  next
    case False
    then have m: "min (unat (dLength f)) (dAvail f) = unat (dLength f)" by simp
    show ?thesis
      using assms(1) g False
      by (simp add: handleFrame_def copyDiscard_def m Let_def closedStreamRst_def writeFrameAsync_def
          split: option.splits)
  qed
qed

section \<open>Initial stream ids\<close>

text \<open>
  C8, as the spec states it: the client half starts at 1 and the server half at 2, on
  both roles. The client half is \<open>local\<close> on a client and \<open>remote\<close> on a server.
  The statement fails: \<open>newSession\<close> leaves the server half at its zero value.
\<close>

theorem C8_server_half_two_counterexample:
  "\<not> (lastId (local (newSession True)) = 1 \<and> lastId (remote (newSession False)) = 1
      \<and> lastId (local (newSession False)) = 2 \<and> lastId (remote (newSession True)) = 2)"
  by (simp add: newSession_def zeroSession_def)

text \<open>
  C8, amended: on both roles the client half's \<open>lastId\<close> starts at 1 and the server
  half's at 0, so that the first stream a client opens is 3 and the first stream a
  server opens is 2.
\<close>

theorem C8_initial_lastId:
  "lastId (local (newSession True)) = 1 \<and> lastId (remote (newSession False)) = 1
   \<and> lastId (local (newSession False)) = 0 \<and> lastId (remote (newSession True)) = 0
   \<and> map_option fst (OpenStream quietEnv (newSession True))
       = Some (Inr (newStream 3 defaultWindowSize False))
   \<and> map_option fst (OpenStream quietEnv (newSession False))
       = Some (Inr (newStream 2 defaultWindowSize False))"
  by (simp add: newSession_def zeroSession_def OpenStream_def quietEnv_def writeFrame_def
      zeroTime_def Let_def)

section \<open>The mutex of OpenStream\<close>

text \<open>
  C7 says that every return path of \<open>OpenStream\<close> that took \<open>newStreamMutex\<close>
  releases it. On a client whose last id is \<open>0x7FFFFFFF\<close> the next id has bit 31 set:
  \<open>OpenStream\<close> returns \<open>streamsExhausted\<close> with the mutex still held, and the next
  call never gets past \<open>Lock\<close>. (Every other return has released the mutex:
  \<open>OpenStream_releases\<close>.)
\<close>

theorem C7_exhausted_keeps_mutex:
  "(case OpenStream quietEnv (Client\<lparr>local := \<lparr>goneAway = 0, lastId = 0x7FFFFFFF\<rparr>\<rparr>) of
      Some (r, s') \<Rightarrow> r = Inl streamsExhausted \<and> newStreamMutex s'
                     \<and> lastId (local s') = 0x80000001 \<and> OpenStream quietEnv s' = None
    | None \<Rightarrow> False)"
  by (simp add: OpenStream_def Client_def newSession_def zeroSession_def quietEnv_def Let_def)

section \<open>The body of a refused SYN\<close>

text \<open>
  C2 says that the payload of every DATA frame is read out of the framer before the
  dispatch returns without error, also when a SYN is refused because the local half has
  gone away. A client that has called \<open>GoAway\<close> and then reads a SYN for stream 2 with
  a body of 4 bytes answers with an RST \<open>StreamRefused\<close> and goes on reading: no body
  byte was read by the session, and no stream handle exists that could have read it.
\<close>

theorem C2_refused_syn_not_drained:
  "(case GoAway quietEnv NoError ''bye'' (Some 250) Client of
      Some (_, s1) \<Rightarrow>
        (case readerStep quietEnv
                (Inr (DataFrame \<lparr>dStreamId = 2, dLength = 4, dSyn = True, dFin = False,
                                 dAvail = 4, dReadErr = None\<rparr>)) s1 of
           Some (goesOn, s2) \<Rightarrow>
             goesOn \<and> \<not> dead s2 \<and> bodyRead s2 = 0 \<and> streams s2 = Map.empty
             \<and> asyncWrites s2 = [RstFrame \<lparr>rStreamId = 2, rErrorCode = StreamRefused\<rparr>]
         | None \<Rightarrow> False)
    | None \<Rightarrow> False)"
  by (simp add: GoAway_def writeFrameSync_def writeFrame_def readerStep_def handleFrame_def
      handleSyn_def writeFrameAsync_def Client_def newSession_def zeroSession_def quietEnv_def
      Let_def)

section \<open>Shutdown runs once\<close>

text \<open>
  C3: the first call of \<open>Close\<close> on a session that has not shut down returns nil and
  performs the shutdown (the local half is marked as gone, \<open>dead\<close> is closed, the
  transport is closed, every stream is told); every call of \<open>Close\<close> or \<open>die\<close>
  after it, and in any state whose \<open>dieOnce\<close> is set, returns \<open>sessionClosed\<close> and
  leaves the state as it is.
\<close>

theorem C3_shutdown_once:
  assumes "dieOnce s = 0"
  shows "(\<exists>s1. Close e s = Some (None, s1) \<and> dieOnce s1 = 1 \<and> dead s1 \<and> transportClosed s1
            \<and> goneAway (local s1) = 1
            \<and> streams s1 = Each (\<lambda>sid. closeWith (Errorf (Text ''Session closed''))) (streams s)
            \<and> (\<forall>e'. Close e' s1 = Some (Some sessionClosed, s1))
            \<and> (\<forall>e' err. die e' err s1 = Some (Some sessionClosed, s1)))
         \<and> (\<forall>t e' err. dieOnce t \<noteq> 0 \<longrightarrow>
               Close e' t = Some (Some sessionClosed, t) \<and> die e' err t = Some (Some sessionClosed, t))"
proof -
  obtain w where ss: "dieStates e None s =
     Some [s\<lparr>dieOnce := 1\<rparr>,
           afterGoAway w (s\<lparr>dieOnce := 1\<rparr>),
           (afterGoAway w (s\<lparr>dieOnce := 1\<rparr>))\<lparr>dieErr := None\<rparr>,
           (afterGoAway w (s\<lparr>dieOnce := 1\<rparr>))\<lparr>dieErr := None, dead := True\<rparr>,
           (afterGoAway w (s\<lparr>dieOnce := 1\<rparr>))\<lparr>dieErr := None, dead := True, transportClosed := True\<rparr>,
           closeAll ((afterGoAway w (s\<lparr>dieOnce := 1\<rparr>))\<lparr>dieErr := None, dead := True, transportClosed := True\<rparr>)]"
    using dieStates_shape by blast
  let ?s1 = "closeAll ((afterGoAway w (s\<lparr>dieOnce := 1\<rparr>))\<lparr>dieErr := None, dead := True, transportClosed := True\<rparr>)"
  have ret: "Close e s = Some (None, ?s1)"
    using assms ss by (simp add: Close_def die_def)
  have once: "dieOnce ?s1 = 1"
    by (simp add: closeAll_def afterGoAway_def)
  have fields: "dead ?s1 \<and> transportClosed ?s1 \<and> goneAway (local ?s1) = 1
      \<and> streams ?s1 = Each (\<lambda>sid. closeWith (Errorf (Text ''Session closed''))) (streams s)"
    by (simp add: closeAll_def afterGoAway_def)
  have again: "\<And>t e' err. dieOnce t \<noteq> 0 \<Longrightarrow>
      Close e' t = Some (Some sessionClosed, t) \<and> die e' err t = Some (Some sessionClosed, t)"
    by (simp add: Close_def die_def)
  have "dieOnce ?s1 \<noteq> 0" using once by simp
  then have later: "(\<forall>e'. Close e' ?s1 = Some (Some sessionClosed, ?s1))
      \<and> (\<forall>e' err. die e' err ?s1 = Some (Some sessionClosed, ?s1))"
    using again by blast
  show ?thesis
    using ret once fields later again by blast
qed

text \<open>C3 at a fresh client: the first \<open>Close\<close> returns nil, the second \<open>sessionClosed\<close>.\<close>

theorem C3_shutdown_once_witness:
  "dieOnce Client = 0
   \<and> (\<exists>s1. Close quietEnv Client = Some (None, s1) \<and> dead s1
          \<and> Close quietEnv s1 = Some (Some sessionClosed, s1))"
proof -
  have h: "dieOnce Client = 0"
    by (simp add: Client_def newSession_def zeroSession_def)
  from C3_shutdown_once [OF h, of quietEnv] show ?thesis
    using h by blast
qed

section \<open>dieErr is published before dead\<close>

text \<open>
  C9: in every state that \<open>die\<close> goes through after winning \<open>dieOnce\<close>, \<open>dead\<close>
  closed means that \<open>dieErr\<close> already holds the error of this call, and there is a
  state in which \<open>dieErr\<close> is stored while \<open>dead\<close> is still open; \<open>Wait\<close> has no
  result while \<open>dead\<close> is open, and once it is closed returns \<open>dieErr\<close>,
  \<open>remoteError\<close> and \<open>remoteDebug\<close>.
\<close>

theorem C9_dieErr_before_dead:
  assumes "dieOnce s = 0" and "\<not> dead s"
  shows "(\<exists>ss. dieStates e err s = Some ss \<and> die e err s = Some (None, last ss)
            \<and> (\<forall>st\<in>set ss. dead st \<longrightarrow> dieErr st = err)
            \<and> (\<forall>st\<in>set ss. \<forall>r. Wait st = Some r \<longrightarrow> fst r = err)
            \<and> (\<exists>st\<in>set ss. dieErr st = err \<and> \<not> dead st \<and> Wait st = None)
            \<and> Wait (last ss) = Some (err, remoteError (last ss), remoteDebug (last ss)))
         \<and> (\<forall>t r. Wait t = Some r \<longrightarrow> dead t \<and> r = (dieErr t, remoteError t, remoteDebug t))"
proof -
  obtain w where ss: "dieStates e err s =
     Some [s\<lparr>dieOnce := 1\<rparr>,
           afterGoAway w (s\<lparr>dieOnce := 1\<rparr>),
           (afterGoAway w (s\<lparr>dieOnce := 1\<rparr>))\<lparr>dieErr := err\<rparr>,
           (afterGoAway w (s\<lparr>dieOnce := 1\<rparr>))\<lparr>dieErr := err, dead := True\<rparr>,
           (afterGoAway w (s\<lparr>dieOnce := 1\<rparr>))\<lparr>dieErr := err, dead := True, transportClosed := True\<rparr>,
           closeAll ((afterGoAway w (s\<lparr>dieOnce := 1\<rparr>))\<lparr>dieErr := err, dead := True, transportClosed := True\<rparr>)]"
    (is "_ = Some ?ss")
    using dieStates_shape by blast
  have ret: "die e err s = Some (None, last ?ss)"
    using assms(1) ss by (simp add: die_def)
  have inv: "\<forall>st\<in>set ?ss. dead st \<longrightarrow> dieErr st = err"
    using assms(2) by (simp add: closeAll_def afterGoAway_def)
  have wait: "\<And>t r. Wait t = Some r \<Longrightarrow> dead t \<and> r = (dieErr t, remoteError t, remoteDebug t)"
    by (auto simp: Wait_def split: if_splits)
  have inv2: "\<forall>st\<in>set ?ss. \<forall>r. Wait st = Some r \<longrightarrow> fst r = err"
    using inv wait by fastforce
  have mid: "\<exists>st\<in>set ?ss. dieErr st = err \<and> \<not> dead st \<and> Wait st = None"
    using assms(2) by (simp add: afterGoAway_def Wait_def)
  have fin: "Wait (last ?ss) = Some (err, remoteError (last ?ss), remoteDebug (last ?ss))"
    by (simp add: closeAll_def afterGoAway_def Wait_def)
  show ?thesis
    using ss ret inv inv2 mid fin wait by blast
qed

text \<open>C9 at a fresh server that dies of a read error.\<close>

theorem C9_dieErr_before_dead_witness:
  "dieOnce Server = 0 \<and> \<not> dead Server
   \<and> (\<exists>ss. dieStates quietEnv (Some (external ''connection reset'')) Server = Some ss
          \<and> Wait (last ss) = Some (Some (external ''connection reset''), remoteError (last ss), remoteDebug (last ss)))"
proof -
  have h1: "dieOnce Server = 0" and h2: "\<not> dead Server"
    by (simp_all add: Server_def newSession_def zeroSession_def)
  from C9_dieErr_before_dead [OF h1 h2, of quietEnv "Some (external ''connection reset'')"] show ?thesis
    using h1 h2 by blast
qed

section \<open>A GOAWAY from the peer\<close>

text \<open>
  C5: on a GOAWAY frame \<open>handleFrame\<close> returns nil, sets \<open>remote.goneAway\<close>, stores
  the frame's error code and debug bytes in \<open>remoteError\<close> and \<open>remoteDebug\<close>, and
  calls \<open>closeWith(remoteGoneAway)\<close> on exactly the streams of the table that are
  local and whose id is greater than the frame's last stream id; every other stream,
  and the rest of the session, is left as it was.
\<close>

theorem C5_goaway_closes_unseen_local_streams:
  "\<exists>s'. handleFrame e (GoAwayFrame g) s = Some (None, s')
      \<and> goneAway (remote s') = 1
      \<and> remoteError s' = Some (muxadoError (gErrorCode g) (Text (gDebug g)))
      \<and> remoteDebug s' = gDebug g
      \<and> (\<forall>sid. streams s' sid =
            (case streams s sid of
               None \<Rightarrow> None
             | Some str \<Rightarrow>
                 Some (if isLocal s (sId str) \<and> gLastStreamId g < sId str
                       then closeWith remoteGoneAway str else str)))
      \<and> lastId (remote s') = lastId (remote s) \<and> local s' = local s
      \<and> dieOnce s' = dieOnce s \<and> dead s' = dead s \<and> dieErr s' = dieErr s
      \<and> accept s' = accept s \<and> asyncWrites s' = asyncWrites s"
  by (simp add: handleFrame_def Let_def Each_def split: option.splits)

text \<open>
  C5 on the client with streams 3, 5, 7, 8 and 9, for a GOAWAY whose last stream id is
  5: streams 7 and 9 are closed, 3 and 5 and the server's stream 8 are not.
\<close>

theorem C5_goaway_witness:
  "\<exists>s'. handleFrame quietEnv
           (GoAwayFrame \<lparr>gLastStreamId = 5, gErrorCode = NoError, gDebug = ''bye''\<rparr>) fiveStreams
         = Some (None, s')
      \<and> remoteError s' = Some (muxadoError NoError (Text ''bye''))
      \<and> streams s' 3 = Some (newStream 3 defaultWindowSize False)
      \<and> streams s' 5 = Some (newStream 5 defaultWindowSize False)
      \<and> streams s' 7 = Some (closeWith remoteGoneAway (newStream 7 defaultWindowSize False))
      \<and> streams s' 8 = Some (newStream 8 defaultWindowSize False)
      \<and> streams s' 9 = Some (closeWith remoteGoneAway (newStream 9 defaultWindowSize False))"
proof -
  have tab: "streams fiveStreams 3 = Some (newStream 3 defaultWindowSize False)"
    "streams fiveStreams 5 = Some (newStream 5 defaultWindowSize False)"
    "streams fiveStreams 7 = Some (newStream 7 defaultWindowSize False)"
    "streams fiveStreams 8 = Some (newStream 8 defaultWindowSize False)"
    "streams fiveStreams 9 = Some (newStream 9 defaultWindowSize False)"
    by (simp_all add: fiveStreams_def)
  have par: "isLocal fiveStreams = isClient"
    by (simp add: fiveStreams_def Client_def newSession_def zeroSession_def)
  have ids: "isClient 3" "isClient 5" "isClient 7" "\<not> isClient 8" "isClient 9"
    by (simp_all add: isClient_def)
  let ?g = "\<lparr>gLastStreamId = 5, gErrorCode = NoError, gDebug = ''bye''\<rparr>"
  from C5_goaway_closes_unseen_local_streams [of quietEnv ?g fiveStreams]
  obtain s' where
    r: "handleFrame quietEnv (GoAwayFrame ?g) fiveStreams = Some (None, s')"
    and e: "remoteError s' = Some (muxadoError (gErrorCode ?g) (Text (gDebug ?g)))"
    and t: "\<forall>sid. streams s' sid =
            (case streams fiveStreams sid of
               None \<Rightarrow> None
             | Some str \<Rightarrow>
                 Some (if isLocal fiveStreams (sId str) \<and> gLastStreamId ?g < sId str
                       then closeWith remoteGoneAway str else str))"
    by blast
  have after: "streams s' 3 = Some (newStream 3 defaultWindowSize False)"
    "streams s' 5 = Some (newStream 5 defaultWindowSize False)"
    "streams s' 7 = Some (closeWith remoteGoneAway (newStream 7 defaultWindowSize False))"
    "streams s' 8 = Some (newStream 8 defaultWindowSize False)"
    "streams s' 9 = Some (closeWith remoteGoneAway (newStream 9 defaultWindowSize False))"
    using tab par ids t by (simp_all add: newStream_def)
  from e have e': "remoteError s' = Some (muxadoError NoError (Text ''bye''))" by simp
  from r e' after show ?thesis by blast
qed

section \<open>OpenStream\<close>



section \<open>Accepting a SYN\<close>




section \<open>Frames for idle and for absent streams\<close>

text \<open>
  C6, as the spec states it: a DATA frame for a stream that is absent from the table is
  never fatal. A client whose stream 3 was removed reads a DATA frame for 3 that
  announces 4 bytes, and the transport ends after 2: \<open>handleFrame\<close> returns
  \<open>io.ErrUnexpectedEOF\<close>, and the reader shuts the session down with it.
\<close>

theorem C6_truncated_body_is_fatal_counterexample:
  "target (DataFrame \<lparr>dStreamId = 3, dLength = 4, dSyn = False, dFin = False, dAvail = 2, dReadErr = None\<rparr>) = Some 3
   \<and> \<not> lastFor streamThreeGone 3 < 3
   \<and> streams streamThreeGone 3 = None
   \<and> handleFrame quietEnv
        (DataFrame \<lparr>dStreamId = 3, dLength = 4, dSyn = False, dFin = False, dAvail = 2, dReadErr = None\<rparr>)
        streamThreeGone
      = Some (Some ErrUnexpectedEOF, streamThreeGone\<lparr>bodyRead := 2\<rparr>)
   \<and> map_option (\<lambda>(goesOn, s'). (goesOn, dead s', dieErr s'))
        (readerStep quietEnv
          (Inr (DataFrame \<lparr>dStreamId = 3, dLength = 4, dSyn = False, dFin = False, dAvail = 2, dReadErr = None\<rparr>))
          streamThreeGone)
      = Some (False, True, Some ErrUnexpectedEOF)"
  by (simp add: target_def lastFor_def streamThreeGone_def removeStream_def Client_def newSession_def zeroSession_def
      isClient_def handleFrame_def getStream_def copyDiscard_def readerStep_def readerExit_def
      die_def dieStates_def GoAway_def writeFrameSync_def writeFrame_def closeAll_def quietEnv_def
      Let_def)

text \<open>
  C6, amended: for a frame that is not a SYN, an id above the last id of its parity
  shuts the session down with a \<open>ProtocolError\<close>. Otherwise, for a DATA frame whose
  stream is absent: when the whole body can be read and the RST packs, the body is
  drained, an RST \<open>StreamClosed\<close> is started asynchronously and \<open>handleFrame\<close>
  returns nil; when the transport stops before the end of the body, \<open>handleFrame\<close>
  returns the read error or \<open>io.ErrUnexpectedEOF\<close>; when the RST does not pack, it
  returns an \<open>InternalError\<close>.
\<close>

theorem C6_idle_id_and_absent_data:
  "(target rf = Some sid \<and> lastFor s sid < sid \<and> dieOnce s = 0 \<longrightarrow>
      (\<exists>r s'. handleFrame e rf s = Some (r, s') \<and> dead s'
            \<and> dieErr s' = Some (newErr ProtocolError (Unassigned sid))))
   \<and> (\<not> dSyn f \<and> dStreamId f \<le> lastFor s (dStreamId f) \<and> streams s (dStreamId f) = None \<longrightarrow>
        (unat (dLength f) \<le> dAvail f \<and> packFails e (closedStreamRst f) = None \<longrightarrow>
           handleFrame e (DataFrame f) s
             = Some (None, s\<lparr>bodyRead := unat (dLength f),
                              asyncWrites := asyncWrites s @ [closedStreamRst f]\<rparr>))
      \<and> (dAvail f < unat (dLength f) \<longrightarrow>
           (\<exists>err. handleFrame e (DataFrame f) s = Some (Some err, s\<lparr>bodyRead := dAvail f\<rparr>)
                \<and> (err = ErrUnexpectedEOF \<or> dReadErr f = Some err)))
      \<and> (unat (dLength f) \<le> dAvail f \<longrightarrow>
           (\<forall>perr. packFails e (closedStreamRst f) = Some perr \<longrightarrow>
              handleFrame e (DataFrame f) s
                = Some (Some (newErr InternalError
                                (Wrapped ''failed to pack data on closed stream RST'' perr)),
                        s\<lparr>bodyRead := unat (dLength f)\<rparr>))))"
proof (intro conjI impI allI)
  assume a: "target rf = Some sid \<and> lastFor s sid < sid \<and> dieOnce s = 0"
  let ?err = "Some (newErr ProtocolError (Unassigned sid))"
  from a getStream_idle [of s sid e] obtain w where
    g: "getStream e sid s = Some (streams (dieFinal w ?err s) sid, dieFinal w ?err s)"
    by blast
  from handleFrame_keeps_death [OF g] a
  show "\<exists>r s'. handleFrame e rf s = Some (r, s') \<and> dead s' \<and> dieErr s' = ?err"
    by (simp add: dieFinal_fields)
next
  assume a: "\<not> dSyn f \<and> dStreamId f \<le> lastFor s (dStreamId f) \<and> streams s (dStreamId f) = None"
    and b: "unat (dLength f) \<le> dAvail f \<and> packFails e (closedStreamRst f) = None"
  from a have "\<not> dSyn f" "dStreamId f \<le> lastFor s (dStreamId f)" "streams s (dStreamId f) = None"
    by simp_all
  from absent_data [OF this, of e] b
  show "handleFrame e (DataFrame f) s
             = Some (None, s\<lparr>bodyRead := unat (dLength f),
                              asyncWrites := asyncWrites s @ [closedStreamRst f]\<rparr>)"
    by simp
next
  assume a: "\<not> dSyn f \<and> dStreamId f \<le> lastFor s (dStreamId f) \<and> streams s (dStreamId f) = None"
    and b: "dAvail f < unat (dLength f)"
  from a have "\<not> dSyn f" "dStreamId f \<le> lastFor s (dStreamId f)" "streams s (dStreamId f) = None"
    by simp_all
  from absent_data [OF this, of e] b
  show "\<exists>err. handleFrame e (DataFrame f) s = Some (Some err, s\<lparr>bodyRead := dAvail f\<rparr>)
                \<and> (err = ErrUnexpectedEOF \<or> dReadErr f = Some err)"
    by (auto split: option.splits error.splits)
next
  fix perr
  assume a: "\<not> dSyn f \<and> dStreamId f \<le> lastFor s (dStreamId f) \<and> streams s (dStreamId f) = None"
    and b: "unat (dLength f) \<le> dAvail f" and c: "packFails e (closedStreamRst f) = Some perr"
  from a have "\<not> dSyn f" "dStreamId f \<le> lastFor s (dStreamId f)" "streams s (dStreamId f) = None"
    by simp_all
  from absent_data [OF this, of e] b c
  show "handleFrame e (DataFrame f) s
                = Some (Some (newErr InternalError
                                (Wrapped ''failed to pack data on closed stream RST'' perr)),
                        s\<lparr>bodyRead := unat (dLength f)\<rparr>)"
    by simp
qed

text \<open>
  C6 on the client whose stream 3 was removed: an RST for the idle stream 5 ends the
  session, a complete DATA frame for 3 is drained and answered with an RST.
\<close>

theorem C6_idle_id_and_absent_data_witness:
  "target (RstFrame \<lparr>rStreamId = 5, rErrorCode = StreamClosed\<rparr>) = Some 5
   \<and> lastFor streamThreeGone 5 < 5 \<and> dieOnce streamThreeGone = 0
   \<and> (\<exists>r s'. handleFrame quietEnv (RstFrame \<lparr>rStreamId = 5, rErrorCode = StreamClosed\<rparr>) streamThreeGone
                = Some (r, s')
            \<and> dead s' \<and> dieErr s' = Some (newErr ProtocolError (Unassigned 5)))
   \<and> \<not> dSyn (plainData 3 4) \<and> dStreamId (plainData 3 4) \<le> lastFor streamThreeGone (dStreamId (plainData 3 4))
   \<and> streams streamThreeGone (dStreamId (plainData 3 4)) = None
   \<and> unat (dLength (plainData 3 4)) \<le> dAvail (plainData 3 4)
   \<and> packFails quietEnv (closedStreamRst (plainData 3 4)) = None
   \<and> handleFrame quietEnv (DataFrame (plainData 3 4)) streamThreeGone
       = Some (None, streamThreeGone\<lparr>bodyRead := 4, asyncWrites := [closedStreamRst (plainData 3 4)]\<rparr>)"
proof -
  have h1: "target (RstFrame \<lparr>rStreamId = 5, rErrorCode = StreamClosed\<rparr>) = Some 5
      \<and> lastFor streamThreeGone 5 < 5 \<and> dieOnce streamThreeGone = 0"
    by (simp add: target_def lastFor_def streamThreeGone_def removeStream_def Client_def newSession_def
        zeroSession_def isClient_def)
  have h2: "\<not> dSyn (plainData 3 4)
      \<and> dStreamId (plainData 3 4) \<le> lastFor streamThreeGone (dStreamId (plainData 3 4))
      \<and> streams streamThreeGone (dStreamId (plainData 3 4)) = None"
    by (simp add: plainData_def lastFor_def streamThreeGone_def removeStream_def Client_def newSession_def
        zeroSession_def isClient_def)
  have h3: "unat (dLength (plainData 3 4)) \<le> dAvail (plainData 3 4)
      \<and> packFails quietEnv (closedStreamRst (plainData 3 4)) = None"
    by (simp add: plainData_def quietEnv_def)
  have v: "unat (dLength (plainData 3 4)) = 4" "asyncWrites streamThreeGone = []"
    by (simp_all add: plainData_def streamThreeGone_def removeStream_def Client_def newSession_def zeroSession_def)
  from C6_idle_id_and_absent_data
         [of "RstFrame \<lparr>rStreamId = 5, rErrorCode = StreamClosed\<rparr>" 5 streamThreeGone quietEnv
             "plainData 3 4"]
       h1 h2 h3
  have "(\<exists>r s'. handleFrame quietEnv (RstFrame \<lparr>rStreamId = 5, rErrorCode = StreamClosed\<rparr>) streamThreeGone
                = Some (r, s')
            \<and> dead s' \<and> dieErr s' = Some (newErr ProtocolError (Unassigned 5)))
      \<and> handleFrame quietEnv (DataFrame (plainData 3 4)) streamThreeGone
          = Some (None, streamThreeGone\<lparr>bodyRead := unat (dLength (plainData 3 4)),
                   asyncWrites := asyncWrites streamThreeGone @ [closedStreamRst (plainData 3 4)]\<rparr>)"
    by blast
  with h1 h2 h3 v show ?thesis by simp
qed

section \<open>A full accept queue\<close>

text \<open>
  C10: when a SYN has passed the three checks and the accept queue is full, so that the
  offer times out, and the RST packs, \<open>handleSyn\<close> starts an RST \<open>AcceptQueueFull\<close>,
  leaves the new stream in the table and hands the frame to its \<open>handleStreamData\<close>,
  whose result it returns: the same result and the same table as when the queue has
  room.
\<close>

theorem C10_accept_queue_full:
  assumes "goneAway (local s) \<noteq> 1" and "\<not> dStreamId f < lastId (remote s)"
    and "\<not> isLocal s (dStreamId f)"
    and "defaultAcceptQueueDepth \<le> length (accept s)"
    and "packFails e (queueFullRst f) = None"
  shows "handleSyn e f s =
           (handleStreamData e (newStream (dStreamId f) (windowSize s) (dFin f)) f,
            s\<lparr>remote := (remote s)\<lparr>lastId := dStreamId f\<rparr>,
              streams := (streams s)(dStreamId f \<mapsto>
                  called (HandleStreamData f) (newStream (dStreamId f) (windowSize s) (dFin f))),
              asyncWrites := asyncWrites s @ [queueFullRst f]\<rparr>)
       \<and> fst (handleSyn e f s) = fst (handleSyn e f (s\<lparr>accept := []\<rparr>))
       \<and> streams (snd (handleSyn e f s)) = streams (snd (handleSyn e f (s\<lparr>accept := []\<rparr>)))"
  using assms
  by (simp add: handleSyn_def queueFullRst_def writeFrameAsync_def callOn_def Let_def
      defaultAcceptQueueDepth_def)

text \<open>C10 on the server with 256 streams waiting, for a SYN for stream 515.\<close>

theorem C10_accept_queue_full_witness:
  "goneAway (local fullQueue) \<noteq> 1 \<and> \<not> dStreamId (synData 515 4) < lastId (remote fullQueue)
   \<and> \<not> isLocal fullQueue (dStreamId (synData 515 4))
   \<and> defaultAcceptQueueDepth \<le> length (accept fullQueue)
   \<and> packFails quietEnv (queueFullRst (synData 515 4)) = None
   \<and> fst (handleSyn quietEnv (synData 515 4) fullQueue) = None
   \<and> streams (snd (handleSyn quietEnv (synData 515 4) fullQueue)) 515
       = Some (called (HandleStreamData (synData 515 4)) (newStream 515 defaultWindowSize False))
   \<and> asyncWrites (snd (handleSyn quietEnv (synData 515 4) fullQueue))
       = [RstFrame \<lparr>rStreamId = 515, rErrorCode = AcceptQueueFull\<rparr>]
   \<and> length (accept (snd (handleSyn quietEnv (synData 515 4) fullQueue))) = 256"
proof -
  have h1: "goneAway (local fullQueue) \<noteq> 1"
    and h2: "\<not> dStreamId (synData 515 4) < lastId (remote fullQueue)"
    and h3: "\<not> isLocal fullQueue (dStreamId (synData 515 4))"
    and h4: "defaultAcceptQueueDepth \<le> length (accept fullQueue)"
    and h5: "packFails quietEnv (queueFullRst (synData 515 4)) = None"
    by (simp_all add: fullQueue_def synData_def Server_def newSession_def zeroSession_def
        isServer_def isClient_def defaultAcceptQueueDepth_def quietEnv_def)
  have v: "dStreamId (synData 515 4) = 515" "dFin (synData 515 4) = False"
    "windowSize fullQueue = defaultWindowSize" "asyncWrites fullQueue = []"
    "length (accept fullQueue) = 256"
    "handleStreamData quietEnv (newStream 515 defaultWindowSize False) (synData 515 4) = None"
    by (simp_all add: fullQueue_def synData_def Server_def newSession_def zeroSession_def
        quietEnv_def)
  from C10_accept_queue_full [OF h1 h2 h3 h4 h5] v
  have "fst (handleSyn quietEnv (synData 515 4) fullQueue) = None
   \<and> streams (snd (handleSyn quietEnv (synData 515 4) fullQueue)) 515
       = Some (called (HandleStreamData (synData 515 4)) (newStream 515 defaultWindowSize False))
   \<and> asyncWrites (snd (handleSyn quietEnv (synData 515 4) fullQueue))
       = [RstFrame \<lparr>rStreamId = 515, rErrorCode = AcceptQueueFull\<rparr>]
   \<and> length (accept (snd (handleSyn quietEnv (synData 515 4) fullQueue))) = 256"
    by (simp add: queueFullRst_def)
  with h1 h2 h3 h4 h5 show ?thesis by blast
qed

end
